theory Spec2Isabelle
  imports Main
begin

section \<open>Node declarations\<close>

text \<open>
  The nodes are declared with the classes of the package \<open>comfyui_types\<close>: an input is
  \<open>ImageInput(...)\<close>, \<open>StringInput(...)\<close> or \<open>ChoiceInput(...)\<close> with keyword arguments,
  an output is \<open>StringOutput()\<close>. A declaration is kept as it is written: the constructor
  and the keyword arguments the source passes, in the source's order.
\<close>

datatype kwarg =
    Required bool
  | Multiline bool
  | Default string
  | Choices "string list"

datatype input = ImageInput "kwarg list" | StringInput "kwarg list" | ChoiceInput "kwarg list"

datatype "output" = StringOutput

fun kwargs :: "input \<Rightarrow> kwarg list" where
  "kwargs (ImageInput ks) = ks"
| "kwargs (StringInput ks) = ks"
| "kwargs (ChoiceInput ks) = ks"

text \<open>The keyword arguments of a declaration, each absent (\<open>None\<close>) when not passed.\<close>

fun required_kw :: "kwarg list \<Rightarrow> bool option" where
  "required_kw [] = None"
| "required_kw (Required b # ks) = Some b"
| "required_kw (k # ks) = required_kw ks"

fun default_kw :: "kwarg list \<Rightarrow> string option" where
  "default_kw [] = None"
| "default_kw (Default s # ks) = Some s"
| "default_kw (k # ks) = default_kw ks"

fun choices_kw :: "kwarg list \<Rightarrow> string list option" where
  "choices_kw [] = None"
| "choices_kw (Choices cs # ks) = Some cs"
| "choices_kw (k # ks) = choices_kw ks"

text \<open>
  The required flag of a declaration: the keyword argument where the source passes one,
  and the flag \<open>lib\<close> that \<open>comfyui_types\<close> gives an input declared without it
  otherwise. The package is not part of the repository, so \<open>lib\<close> is a parameter.
\<close>

definition is_required :: "bool \<Rightarrow> input \<Rightarrow> bool" where
  "is_required lib d = (case required_kw (kwargs d) of None \<Rightarrow> lib | Some b \<Rightarrow> b)"

text \<open>
  A node class: its name, the class attribute \<open>category\<close>, and its input and output
  declarations by attribute name, in the order of the class body.
\<close>

record node_class =
  class_name :: string
  category :: string
  inputs :: "(string \<times> input) list"
  outputs :: "(string \<times> output) list"

definition optional_inputs :: "bool \<Rightarrow> node_class \<Rightarrow> string list" where
  "optional_inputs lib c = map fst (filter (\<lambda>(n, d). \<not> is_required lib d) (inputs c))"

definition required_inputs :: "bool \<Rightarrow> node_class \<Rightarrow> string list" where
  "required_inputs lib c = map fst (filter (\<lambda>(n, d). is_required lib d) (inputs c))"

definition input_defaults :: "node_class \<Rightarrow> (string \<times> string option) list" where
  "input_defaults c = map (\<lambda>(n, d). (n, default_kw (kwargs d))) (inputs c)"

definition input_choices :: "node_class \<Rightarrow> (string \<times> string list option) list" where
  "input_choices c = map (\<lambda>(n, d). (n, choices_kw (kwargs d))) (inputs c)"

definition required_keywords :: "node_class \<Rightarrow> (string \<times> bool option) list" where
  "required_keywords c = map (\<lambda>(n, d). (n, required_kw (kwargs d))) (inputs c)"

section \<open>The module \<open>nodes/nodes.py\<close>\<close>

text \<open>
  The names the class bodies read when the module is loaded: the list \<open>models\<close> imported
  from the module \<open>ai\<close> (which is not part of the sources, so the list is a parameter)
  and the two prompt constants the module defines itself.
\<close>

record nodes_globals =
  models :: "string list"
  DESCRIBE_IMAGE_PROMPT :: string
  COMBINE_TEXTS_PROMPT :: string

definition nodes_globals :: "string list \<Rightarrow> nodes_globals" where
  "nodes_globals ms =
     \<lparr> models = ms,
       DESCRIBE_IMAGE_PROMPT = ''Describe this image in detail.'',
       COMBINE_TEXTS_PROMPT =
         ''Combine the following two texts into one coherent prompt without redundancies.'' \<rparr>"

definition DescribeImage :: "nodes_globals \<Rightarrow> node_class" where
  "DescribeImage g =
     \<lparr> class_name = ''DescribeImage'',
       category = ''Claude'',
       inputs =
         [ (''image'', ImageInput []),
           (''model'', ChoiceInput [Choices (models g)]),
           (''api_key'', StringInput []),
           (''system_prompt'', StringInput [Required False, Multiline True]),
           (''prompt'',
              StringInput [Required False, Multiline True, Default (DESCRIBE_IMAGE_PROMPT g)]) ],
       outputs = [ (''description'', StringOutput) ] \<rparr>"

definition CombineTexts :: "nodes_globals \<Rightarrow> node_class" where
  "CombineTexts g =
     \<lparr> class_name = ''CombineTexts'',
       category = ''Claude'',
       inputs =
         [ (''text_1'', StringInput [Multiline True]),
           (''text_1_prefix'', StringInput [Default ''1'']),
           (''text_2'', StringInput [Multiline True]),
           (''text_2_prefix'', StringInput [Default ''2'']),
           (''model'', ChoiceInput [Choices (models g)]),
           (''api_key'', StringInput []),
           (''system_prompt'', StringInput [Required False, Multiline True]),
           (''prompt'',
              StringInput [Required False, Multiline True, Default (DESCRIBE_IMAGE_PROMPT g)]) ],
       outputs = [ (''combined_texts'', StringOutput) ] \<rparr>"

definition TransformText :: "nodes_globals \<Rightarrow> node_class" where
  "TransformText g =
     \<lparr> class_name = ''TransformText'',
       category = ''Claude'',
       inputs =
         [ (''text'', StringInput [Multiline True]),
           (''model'', ChoiceInput [Choices (models g)]),
           (''api_key'', StringInput []),
           (''system_prompt'', StringInput [Required False, Multiline True]),
           (''prompt'',
              StringInput [Required False, Multiline True, Default (DESCRIBE_IMAGE_PROMPT g)]) ],
       outputs = [ (''transformed_text'', StringOutput) ] \<rparr>"

text \<open>
  Strings are modelled by \<open>string\<close>, as the bytes of their UTF-8 encoding. The only
  characters outside ASCII in the sources are the arrow (U+2192) and the dash (U+2014) in
  the default of \<open>ClassifyImage.classification_prompt\<close>, which is one string literal in
  the source.
\<close>

definition rightwards_arrow :: string where
  "rightwards_arrow = [CHR 0xE2, CHR 0x86, CHR 0x92]"

definition em_dash :: string where
  "em_dash = [CHR 0xE2, CHR 0x80, CHR 0x94]"

definition classification_prompt_default :: string where
  "classification_prompt_default =
     ''You are a visual classification model. I will provide you with a full-body fashion image containing one or more garments. Your task is to analyze the entire image and classify each distinct visible garment using **only** the following predefined list of classes: dress, jacket, jumpsuit, sweatshirt, coat, cardigan, skort, bikini, leggings, underwear, swimsuit, bodysuit, vest, poncho, saree, kurta, sweater, sleepwear, tank-top, shirt, pants, shorts, thshirt, skirt, topwear, jeans, tshirt, blazer, bra ### Instructions: - Identify the **most prominent garments** visible in the image - Select the **best-fitting label** from the list above for each garment - **MAXIMUM TWO CLASSES ONLY** - return at most 2 garment classifications - If there is only one visible garment, return just the **single class name** - If there are multiple garments, return **only the two most prominent ones** in a **comma-separated format** (e.g., `shirt, pants`) - **Only** use the class names from the list above. Do **not** create new categories or output any additional text - Your output must be **clean and machine-readable**, as it will be passed directly to another model (Moondream) for bounding box extraction ### Output format: - One garment '' @ rightwards_arrow @ '' `tshirt` - Two garments '' @ rightwards_arrow @ '' `tshirt, jeans` - **NEVER return more than two classes** Again, **do not include explanations, descriptions, confidence scores, or formatting**'' @ em_dash @ ''just the class name(s) as a single plain string with maximum two classes.''"

definition ClassifyImage :: "nodes_globals \<Rightarrow> node_class" where
  "ClassifyImage g =
     \<lparr> class_name = ''ClassifyImage'',
       category = ''Claude'',
       inputs =
         [ (''image'', ImageInput []),
           (''classification_prompt'',
              StringInput [Multiline True, Default classification_prompt_default]),
           (''model'', ChoiceInput [Choices (models g), Default ''claude-3-7-sonnet-20250219'']),
           (''api_key'', StringInput []),
           (''system_prompt'', StringInput [Required False, Multiline True]) ],
       outputs = [ (''classification'', StringOutput) ] \<rparr>"

section \<open>The package's \<open>__init__.py\<close>\<close>

text \<open>
  The registration dictionary, as the association list of its literal (a Python
  dictionary keeps the order of insertion); \<open>map_of\<close> looks a display name up.
\<close>

definition NODE_CLASS_MAPPINGS :: "nodes_globals \<Rightarrow> (string \<times> node_class) list" where
  "NODE_CLASS_MAPPINGS g =
     [ (''Describe Image'', DescribeImage g),
       (''Combine Texts'', CombineTexts g),
       (''Transform Text'', TransformText g),
       (''Classify Image'', ClassifyImage g) ]"

section \<open>The external client\<close>

text \<open>
  \<open>describe_image(image, prompt, system_prompt, model, api_key)\<close> and
  \<open>run_prompt(prompt, system_prompt, model, api_key)\<close> are imported from the module
  \<open>ai\<close>, which is not part of the sources: they are parameters of the model. A call
  runs in a state of type \<open>'s\<close> (whatever the client can read or change), and either
  raises an exception \<open>Inl e\<close> or returns a string \<open>Inr v\<close>, leaving a new state.
  The image is a value of an arbitrary type \<open>'img\<close>; the parameter \<open>image\<close> is written
  \<open>image_tensor\<close> below, \<open>image\<close> being a constant of HOL.
\<close>

record ('img, 'e, 's) ai =
  describe_image ::
    "'img \<Rightarrow> string \<Rightarrow> string \<Rightarrow> string \<Rightarrow> string \<Rightarrow> 's \<Rightarrow> ('e + string) \<times> 's"
  run_prompt ::
    "string \<Rightarrow> string \<Rightarrow> string \<Rightarrow> string \<Rightarrow> 's \<Rightarrow> ('e + string) \<times> 's"

section \<open>The \<open>execute\<close> methods\<close>

text \<open>
  An f-string is a sequence of literal text and replacement fields. A field \<open>{x}\<close> with
  no conversion and no format specification, on a string \<open>x\<close>, yields \<open>x\<close>.
\<close>

datatype fpart = Lit string | Field string

fun fpart_text :: "fpart \<Rightarrow> string" where
  "fpart_text (Lit s) = s"
| "fpart_text (Field x) = x"

definition fstring :: "fpart list \<Rightarrow> string" where
  "fstring ps = concat (map fpart_text ps)"

text \<open>
  \<open>return (call,)\<close>: an exception of the call leaves the method as it is, there being no
  \<open>try\<close> around it; a value \<open>v\<close> is returned as the tuple \<open>(v,)\<close>, modelled by the
  list \<open>[v]\<close>.
\<close>

definition return_tuple :: "('e + string) \<times> 's \<Rightarrow> ('e + string list) \<times> 's" where
  "return_tuple r = (case r of (Inl e, s) \<Rightarrow> (Inl e, s) | (Inr v, s) \<Rightarrow> (Inr [v], s))"

definition DescribeImage_execute ::
  "('img, 'e, 's) ai \<Rightarrow> 'self \<Rightarrow> 'img \<Rightarrow> string \<Rightarrow> string \<Rightarrow> string \<Rightarrow> string
     \<Rightarrow> 's \<Rightarrow> ('e + string list) \<times> 's" where
  "DescribeImage_execute ai self image_tensor model api_key system_prompt prompt s =
     return_tuple (describe_image ai image_tensor prompt system_prompt model api_key s)"

definition CombineTexts_full_prompt ::
  "string \<Rightarrow> string \<Rightarrow> string \<Rightarrow> string \<Rightarrow> string \<Rightarrow> string" where
  "CombineTexts_full_prompt text_1 text_1_prefix text_2 text_2_prefix prompt =
     fstring [Field prompt, Lit ''\<newline>'', Field text_1_prefix, Lit '' '', Field text_1,
       Lit ''\<newline>'', Field text_2_prefix, Lit '' '', Field text_2]"

definition CombineTexts_execute ::
  "('img, 'e, 's) ai \<Rightarrow> 'self \<Rightarrow> string \<Rightarrow> string \<Rightarrow> string \<Rightarrow> string \<Rightarrow> string \<Rightarrow> string
     \<Rightarrow> string \<Rightarrow> string \<Rightarrow> 's \<Rightarrow> ('e + string list) \<times> 's" where
  "CombineTexts_execute ai self text_1 text_1_prefix text_2 text_2_prefix model api_key
       system_prompt prompt s =
     (let full_prompt = CombineTexts_full_prompt text_1 text_1_prefix text_2 text_2_prefix prompt
      in return_tuple (run_prompt ai full_prompt system_prompt model api_key s))"

definition TransformText_full_prompt :: "string \<Rightarrow> string \<Rightarrow> string" where
  "TransformText_full_prompt text prompt =
     fstring [Field prompt, Lit ''\<newline>Text: '', Field text, Lit ''\<newline>'']"

definition TransformText_execute ::
  "('img, 'e, 's) ai \<Rightarrow> 'self \<Rightarrow> string \<Rightarrow> string \<Rightarrow> string \<Rightarrow> string \<Rightarrow> string
     \<Rightarrow> 's \<Rightarrow> ('e + string list) \<times> 's" where
  "TransformText_execute ai self text model api_key system_prompt prompt s =
     (let full_prompt = TransformText_full_prompt text prompt
      in return_tuple (run_prompt ai full_prompt system_prompt model api_key s))"

definition ClassifyImage_execute ::
  "('img, 'e, 's) ai \<Rightarrow> 'self \<Rightarrow> 'img \<Rightarrow> string \<Rightarrow> string \<Rightarrow> string \<Rightarrow> string
     \<Rightarrow> 's \<Rightarrow> ('e + string list) \<times> 's" where
  "ClassifyImage_execute ai self image_tensor classification_prompt model api_key system_prompt s =
     return_tuple (describe_image ai image_tensor classification_prompt system_prompt model api_key s)"

section \<open>Observing the calls of the client\<close>

text \<open>
  To speak about the calls a method makes, a client is wrapped so that it appends every
  call, with its arguments in the order of the client's signature, to a log kept beside
  its state, and otherwise answers as before.
\<close>

datatype 'img call =
    Describe_image 'img string string string string
  | Run_prompt string string string string

definition logged :: "('img, 'e, 's) ai \<Rightarrow> ('img, 'e, 'img call list \<times> 's) ai" where
  "logged ai =
     \<lparr> describe_image = (\<lambda>image_tensor prompt system_prompt model api_key (cs, s).
         case describe_image ai image_tensor prompt system_prompt model api_key s of
           (r, s') \<Rightarrow> (r, (cs @ [Describe_image image_tensor prompt system_prompt model api_key], s'))),
       run_prompt = (\<lambda>prompt system_prompt model api_key (cs, s).
         case run_prompt ai prompt system_prompt model api_key s of
           (r, s') \<Rightarrow> (r, (cs @ [Run_prompt prompt system_prompt model api_key], s'))) \<rparr>"

definition calls :: "'r \<times> ('img call list \<times> 's) \<Rightarrow> 'img call list" where
  "calls r = fst (snd r)"

fun prompt_of :: "'img call \<Rightarrow> string" where
  "prompt_of (Describe_image image_tensor prompt system_prompt model api_key) = prompt"
| "prompt_of (Run_prompt prompt system_prompt model api_key) = prompt"

text \<open>
  A small client to run the methods on: it counts the requests made, raises
  \<open>AuthenticationError\<close> on an empty API key, and otherwise gives one fixed answer.
\<close>

datatype api_error = AuthenticationError

definition stub_ai :: "(nat, api_error, nat) ai" where
  "stub_ai =
     \<lparr> describe_image = (\<lambda>image_tensor prompt system_prompt model api_key n.
         (if api_key = [] then Inl AuthenticationError else Inr ''a red dress'', Suc n)),
       run_prompt = (\<lambda>prompt system_prompt model api_key n.
         (if api_key = [] then Inl AuthenticationError else Inr ''a red dress'', Suc n)) \<rparr>"

section \<open>The state of the program\<close>

text \<open>
  What persists between two calls of \<open>execute\<close>: the module-level variables of
  \<open>nodes.py\<close>, the dictionary \<open>NODE_CLASS_MAPPINGS\<close> (whose values are the node classes
  with their declarations), and the rest of the world, which is where a client that keeps
  to itself works.
\<close>

record 'w program_state =
  nodes_py :: nodes_globals
  registry :: "(string \<times> node_class) list"
  world :: 'w

definition loaded :: "string list \<Rightarrow> 'w \<Rightarrow> 'w program_state" where
  "loaded ms w =
     \<lparr> nodes_py = nodes_globals ms, registry = NODE_CLASS_MAPPINGS (nodes_globals ms), world = w \<rparr>"

text \<open>\<open>keeps obs ai\<close>: no call of the client changes what \<open>obs\<close> reads of the state.\<close>

definition keeps :: "('s \<Rightarrow> 'o) \<Rightarrow> ('img, 'e, 's) ai \<Rightarrow> bool" where
  "keeps obs ai =
     ((\<forall>image_tensor prompt system_prompt model api_key s.
         obs (snd (describe_image ai image_tensor prompt system_prompt model api_key s)) = obs s) \<and>
      (\<forall>prompt system_prompt model api_key s.
         obs (snd (run_prompt ai prompt system_prompt model api_key s)) = obs s))"

text \<open>A client on the world alone, run in the state of the program.\<close>

definition on_world :: "('img, 'e, 'w) ai \<Rightarrow> ('img, 'e, 'w program_state) ai" where
  "on_world ai =
     \<lparr> describe_image = (\<lambda>image_tensor prompt system_prompt model api_key s.
         case describe_image ai image_tensor prompt system_prompt model api_key (world s) of
           (r, w') \<Rightarrow> (r, s\<lparr>world := w'\<rparr>)),
       run_prompt = (\<lambda>prompt system_prompt model api_key s.
         case run_prompt ai prompt system_prompt model api_key (world s) of
           (r, w') \<Rightarrow> (r, s\<lparr>world := w'\<rparr>)) \<rparr>"

section \<open>Auxiliary facts\<close>

lemma calls_return_tuple: "calls (return_tuple r) = calls r"
  by (simp add: calls_def return_tuple_def split: prod.splits sum.splits)

lemma calls_logged_run_prompt:
  "calls (run_prompt (logged ai) prompt system_prompt model api_key (cs, s))
     = cs @ [Run_prompt prompt system_prompt model api_key]"
  by (simp add: calls_def logged_def split: prod.splits)

lemma calls_logged_describe_image:
  "calls (describe_image (logged ai) image_tensor prompt system_prompt model api_key (cs, s))
     = cs @ [Describe_image image_tensor prompt system_prompt model api_key]"
  by (simp add: calls_def logged_def split: prod.splits)

lemma fst_return_tuple_Inl: "fst r = Inl e \<Longrightarrow> return_tuple r = (Inl e, snd r)"
  by (cases r) (simp add: return_tuple_def)

lemma fst_return_tuple_Inr: "fst r = Inr v \<Longrightarrow> return_tuple r = (Inr [v], snd r)"
  by (cases r) (simp add: return_tuple_def)

lemma snd_return_tuple: "snd (return_tuple r) = snd r"
  by (simp add: return_tuple_def split: prod.splits sum.splits)

lemma stub_describe:
  "describe_image stub_ai i p sp m k n
     = (if k = [] then Inl AuthenticationError else Inr ''a red dress'', Suc n)"
  by (simp add: stub_ai_def)

lemma stub_run:
  "run_prompt stub_ai p sp m k n
     = (if k = [] then Inl AuthenticationError else Inr ''a red dress'', Suc n)"
  by (simp add: stub_ai_def)

lemma keeps_describe_image:
  "keeps obs ai \<Longrightarrow>
     obs (snd (describe_image ai image_tensor prompt system_prompt model api_key s)) = obs s"
  by (simp add: keeps_def)

lemma keeps_run_prompt:
  "keeps obs ai \<Longrightarrow> obs (snd (run_prompt ai prompt system_prompt model api_key s)) = obs s"
  by (simp add: keeps_def)

lemma keeps_on_world: "keeps (\<lambda>s. (nodes_py s, registry s)) (on_world ai)"
  by (simp add: keeps_def on_world_def split: prod.splits)

section \<open>Prompt assembly\<close>

text \<open>
  Claim C1. For every prompt \<open>p\<close>, texts \<open>t1\<close>, \<open>t2\<close> and prefixes \<open>x\<close>, \<open>y\<close>, the prompt
  that \<open>CombineTexts.execute\<close> assembles is \<open>p\<close>, a newline, \<open>x\<close>, a space, \<open>t1\<close>, a
  newline, \<open>y\<close>, a space, \<open>t2\<close>. With \<open>t1 = "a"\<close>, \<open>x = "X"\<close>, \<open>t2 = "b"\<close>, \<open>y = "Y"\<close> it
  is \<open>p\<close> followed by \<open>"\nX a\nY b"\<close>. The method makes one call of the client,
  \<open>run_prompt\<close>, and this string is its first argument.
\<close>

theorem CombineTexts_prompt_assembly:
  "CombineTexts_full_prompt t1 x t2 y p
     = p @ ''\<newline>'' @ x @ '' '' @ t1 @ ''\<newline>'' @ y @ '' '' @ t2
   \<and> CombineTexts_full_prompt ''a'' ''X'' ''b'' ''Y'' p = p @ ''\<newline>X a\<newline>Y b''
   \<and> calls (CombineTexts_execute (logged ai) self t1 x t2 y model api_key system_prompt p (cs, s))
     = cs @ [Run_prompt (p @ ''\<newline>'' @ x @ '' '' @ t1 @ ''\<newline>'' @ y @ '' '' @ t2)
               system_prompt model api_key]"
  by (simp add: CombineTexts_full_prompt_def fstring_def CombineTexts_execute_def
      calls_return_tuple calls_logged_run_prompt)

text \<open>
  Claim C10. For every prompt \<open>p\<close> and text \<open>t\<close>, the prompt that
  \<open>TransformText.execute\<close> assembles and passes to \<open>run_prompt\<close> is \<open>p\<close>, then
  \<open>"\nText: "\<close>, then \<open>t\<close>, then a newline: its last character is always the newline.
  The prompt of \<open>CombineTexts\<close> ends with the space and \<open>text_2\<close>, with nothing added
  behind: its last character is the last one of \<open>text_2\<close>, or the space when \<open>text_2\<close>
  is empty.
\<close>

theorem TransformText_prompt_assembly:
  "TransformText_full_prompt t p = p @ ''\<newline>Text: '' @ t @ ''\<newline>''
   \<and> last (TransformText_full_prompt t p) = CHR 0x0A
   \<and> calls (TransformText_execute (logged ai) self t model api_key system_prompt p (cs, s))
     = cs @ [Run_prompt (p @ ''\<newline>Text: '' @ t @ ''\<newline>'') system_prompt model api_key]
   \<and> last (CombineTexts_full_prompt t1 x t2 y p) = last ('' '' @ t2)"
  by (simp add: TransformText_full_prompt_def CombineTexts_full_prompt_def fstring_def
      TransformText_execute_def calls_return_tuple calls_logged_run_prompt)

text \<open>
  Claim C6. Prompt assembly is deterministic and depends on the prompt, the texts and the
  prefixes only. Take two runs of the same method that agree on these arguments and may
  differ in everything else: the client and its state, the node object, the image, the
  model, the API key and the system prompt. The prompt each run passes to the client is
  the same.
\<close>

theorem prompt_assembly_deterministic:
  "map prompt_of (calls (DescribeImage_execute (logged ai) self image_tensor model api_key
       system_prompt prompt ([], s)))
     = map prompt_of (calls (DescribeImage_execute (logged ai') self' image_tensor' model'
       api_key' system_prompt' prompt ([], s')))
   \<and> map prompt_of (calls (CombineTexts_execute (logged ai) self text_1 text_1_prefix text_2
       text_2_prefix model api_key system_prompt prompt ([], s)))
     = map prompt_of (calls (CombineTexts_execute (logged ai') self' text_1 text_1_prefix text_2
       text_2_prefix model' api_key' system_prompt' prompt ([], s')))
   \<and> map prompt_of (calls (TransformText_execute (logged ai) self text model api_key
       system_prompt prompt ([], s)))
     = map prompt_of (calls (TransformText_execute (logged ai') self' text model' api_key'
       system_prompt' prompt ([], s')))
   \<and> map prompt_of (calls (ClassifyImage_execute (logged ai) self image_tensor
       classification_prompt model api_key system_prompt ([], s)))
     = map prompt_of (calls (ClassifyImage_execute (logged ai') self' image_tensor'
       classification_prompt model' api_key' system_prompt' ([], s')))"
  by (simp add: DescribeImage_execute_def CombineTexts_execute_def TransformText_execute_def
      ClassifyImage_execute_def calls_return_tuple calls_logged_run_prompt
      calls_logged_describe_image)

section \<open>Registration\<close>

text \<open>
  Claim C4. \<open>NODE_CLASS_MAPPINGS\<close> has exactly four entries: its keys are the display
  names \<open>Describe Image\<close>, \<open>Combine Texts\<close>, \<open>Transform Text\<close> and \<open>Classify Image\<close>,
  and it maps them to the classes \<open>DescribeImage\<close>, \<open>CombineTexts\<close>, \<open>TransformText\<close>
  and \<open>ClassifyImage\<close>, in this order.
\<close>

theorem NODE_CLASS_MAPPINGS_entries:
  "length (NODE_CLASS_MAPPINGS g) = 4
   \<and> dom (map_of (NODE_CLASS_MAPPINGS g))
     = {''Describe Image'', ''Combine Texts'', ''Transform Text'', ''Classify Image''}
   \<and> map_of (NODE_CLASS_MAPPINGS g) ''Describe Image'' = Some (DescribeImage g)
   \<and> map_of (NODE_CLASS_MAPPINGS g) ''Combine Texts'' = Some (CombineTexts g)
   \<and> map_of (NODE_CLASS_MAPPINGS g) ''Transform Text'' = Some (TransformText g)
   \<and> map_of (NODE_CLASS_MAPPINGS g) ''Classify Image'' = Some (ClassifyImage g)
   \<and> map class_name [DescribeImage g, CombineTexts g, TransformText g, ClassifyImage g]
     = [''DescribeImage'', ''CombineTexts'', ''TransformText'', ''ClassifyImage'']"
  by (auto simp add: NODE_CLASS_MAPPINGS_def DescribeImage_def CombineTexts_def
      TransformText_def ClassifyImage_def)

section \<open>Calls of the client\<close>

text \<open>
  Claim C7. Each method makes one call of the client, with the arguments in the order of
  the client's signature. \<open>DescribeImage\<close> and \<open>ClassifyImage\<close> call
  \<open>describe_image(image, prompt, system_prompt, model, api_key)\<close> with the image and the
  prompt (the classification prompt) as they were given; \<open>CombineTexts\<close> and
  \<open>TransformText\<close> call \<open>run_prompt(prompt, system_prompt, model, api_key)\<close> with the
  assembled prompt first. What the method returns is made of the result of this call. The
  input \<open>model\<close> of every node is declared as a choice among \<open>models\<close>.
\<close>

theorem client_call_arguments:
  "calls (DescribeImage_execute (logged ai) self image_tensor model api_key system_prompt prompt
       (cs, s))
     = cs @ [Describe_image image_tensor prompt system_prompt model api_key]
   \<and> calls (ClassifyImage_execute (logged ai) self image_tensor classification_prompt model
       api_key system_prompt (cs, s))
     = cs @ [Describe_image image_tensor classification_prompt system_prompt model api_key]
   \<and> calls (CombineTexts_execute (logged ai) self text_1 text_1_prefix text_2 text_2_prefix
       model api_key system_prompt prompt (cs, s))
     = cs @ [Run_prompt (CombineTexts_full_prompt text_1 text_1_prefix text_2 text_2_prefix prompt)
               system_prompt model api_key]
   \<and> calls (TransformText_execute (logged ai) self text model api_key system_prompt prompt
       (cs, s))
     = cs @ [Run_prompt (TransformText_full_prompt text prompt) system_prompt model api_key]
   \<and> DescribeImage_execute ai self image_tensor model api_key system_prompt prompt s
     = return_tuple (describe_image ai image_tensor prompt system_prompt model api_key s)
   \<and> ClassifyImage_execute ai self image_tensor classification_prompt model api_key
       system_prompt s
     = return_tuple (describe_image ai image_tensor classification_prompt system_prompt model
         api_key s)
   \<and> CombineTexts_execute ai self text_1 text_1_prefix text_2 text_2_prefix model api_key
       system_prompt prompt s
     = return_tuple (run_prompt ai
         (CombineTexts_full_prompt text_1 text_1_prefix text_2 text_2_prefix prompt)
         system_prompt model api_key s)
   \<and> TransformText_execute ai self text model api_key system_prompt prompt s
     = return_tuple (run_prompt ai (TransformText_full_prompt text prompt) system_prompt model
         api_key s)
   \<and> map_of (input_choices (DescribeImage g)) ''model'' = Some (Some (models g))
   \<and> map_of (input_choices (CombineTexts g)) ''model'' = Some (Some (models g))
   \<and> map_of (input_choices (TransformText g)) ''model'' = Some (Some (models g))
   \<and> map_of (input_choices (ClassifyImage g)) ''model'' = Some (Some (models g))"
  by (simp add: DescribeImage_execute_def CombineTexts_execute_def TransformText_execute_def
      ClassifyImage_execute_def calls_return_tuple calls_logged_run_prompt
      calls_logged_describe_image input_choices_def DescribeImage_def CombineTexts_def
      TransformText_def ClassifyImage_def)

section \<open>Results and exceptions\<close>

text \<open>
  Claim C2. For each of the four nodes and all inputs: when the call of the client
  (\<open>describe_image\<close> or \<open>run_prompt\<close>) raises an exception \<open>e\<close>, \<open>execute\<close> raises
  this same \<open>e\<close> and produces no other result; the state is the one the call left.
  Below, \<open>ta\<close>, \<open>x\<close>, \<open>tb\<close>, \<open>y\<close> stand for \<open>text_1\<close>, \<open>text_1_prefix\<close>, \<open>text_2\<close>,
  \<open>text_2_prefix\<close>, and \<open>t\<close> for \<open>text\<close>.
\<close>

theorem helper_exception_propagates:
  "(fst (describe_image ai image_tensor prompt system_prompt model api_key s) = Inl e \<longrightarrow>
      DescribeImage_execute ai self image_tensor model api_key system_prompt prompt s
        = (Inl e, snd (describe_image ai image_tensor prompt system_prompt model api_key s)))
   \<and> (fst (run_prompt ai (CombineTexts_full_prompt ta x tb y prompt)
          system_prompt model api_key s) = Inl e \<longrightarrow>
      CombineTexts_execute ai self ta x tb y model api_key system_prompt prompt s
        = (Inl e, snd (run_prompt ai (CombineTexts_full_prompt ta x tb y prompt)
            system_prompt model api_key s)))
   \<and> (fst (run_prompt ai (TransformText_full_prompt t prompt) system_prompt model api_key s)
          = Inl e \<longrightarrow>
      TransformText_execute ai self t model api_key system_prompt prompt s
        = (Inl e, snd (run_prompt ai (TransformText_full_prompt t prompt)
            system_prompt model api_key s)))
   \<and> (fst (describe_image ai image_tensor classification_prompt system_prompt model api_key s)
          = Inl e \<longrightarrow>
      ClassifyImage_execute ai self image_tensor classification_prompt model api_key
          system_prompt s
        = (Inl e, snd (describe_image ai image_tensor classification_prompt system_prompt
            model api_key s)))"
  by (simp add: DescribeImage_execute_def CombineTexts_execute_def TransformText_execute_def
      ClassifyImage_execute_def fst_return_tuple_Inl)

text \<open>
  The four methods on the small client with an empty API key: the client raises
  \<open>AuthenticationError\<close> after counting the request, and so does each method.
\<close>

theorem helper_exception_propagates_witness:
  "fst (describe_image stub_ai 7 ''Merge:'' ''sys'' ''m'' [] 0) = Inl AuthenticationError
   \<and> DescribeImage_execute stub_ai () 7 ''m'' [] ''sys'' ''Merge:'' 0
       = (Inl AuthenticationError, 1)
   \<and> fst (run_prompt stub_ai (CombineTexts_full_prompt ''a'' ''X'' ''b'' ''Y'' ''Merge:'')
       ''sys'' ''m'' [] 0) = Inl AuthenticationError
   \<and> CombineTexts_execute stub_ai () ''a'' ''X'' ''b'' ''Y'' ''m'' [] ''sys'' ''Merge:'' 0
       = (Inl AuthenticationError, 1)
   \<and> fst (run_prompt stub_ai (TransformText_full_prompt ''a'' ''Merge:'') ''sys'' ''m'' [] 0)
       = Inl AuthenticationError
   \<and> TransformText_execute stub_ai () ''a'' ''m'' [] ''sys'' ''Merge:'' 0
       = (Inl AuthenticationError, 1)
   \<and> fst (describe_image stub_ai 7 ''Classify.'' ''sys'' ''m'' [] 0) = Inl AuthenticationError
   \<and> ClassifyImage_execute stub_ai () 7 ''Classify.'' ''m'' [] ''sys'' 0
       = (Inl AuthenticationError, 1)"
  using helper_exception_propagates [where ai = stub_ai and image_tensor = 7
      and prompt = "''Merge:''" and system_prompt = "''sys''" and model = "''m''"
      and api_key = "[]" and s = 0 and e = AuthenticationError and self = "()"
      and ta = "''a''" and x = "''X''" and tb = "''b''" and y = "''Y''" and t = "''a''"
      and classification_prompt = "''Classify.''"]
  by (simp add: stub_describe stub_run)

text \<open>
  Claim C3. Every node class declares exactly one output, a string output. For each node
  and all inputs: when the call of the client returns the string \<open>v\<close>, \<open>execute\<close> returns
  the one-element tuple \<open>(v,)\<close>. Variables as for C2.
\<close>

theorem helper_result_passed_through:
  "map snd (outputs (DescribeImage g)) = [StringOutput]
   \<and> map snd (outputs (CombineTexts g)) = [StringOutput]
   \<and> map snd (outputs (TransformText g)) = [StringOutput]
   \<and> map snd (outputs (ClassifyImage g)) = [StringOutput]
   \<and> (fst (describe_image ai image_tensor prompt system_prompt model api_key s) = Inr v \<longrightarrow>
      fst (DescribeImage_execute ai self image_tensor model api_key system_prompt prompt s)
        = Inr [v])
   \<and> (fst (run_prompt ai (CombineTexts_full_prompt ta x tb y prompt)
          system_prompt model api_key s) = Inr v \<longrightarrow>
      fst (CombineTexts_execute ai self ta x tb y model api_key system_prompt prompt s)
        = Inr [v])
   \<and> (fst (run_prompt ai (TransformText_full_prompt t prompt) system_prompt model api_key s)
          = Inr v \<longrightarrow>
      fst (TransformText_execute ai self t model api_key system_prompt prompt s) = Inr [v])
   \<and> (fst (describe_image ai image_tensor classification_prompt system_prompt model api_key s)
          = Inr v \<longrightarrow>
      fst (ClassifyImage_execute ai self image_tensor classification_prompt model api_key
          system_prompt s) = Inr [v])"
  by (simp add: DescribeImage_def CombineTexts_def TransformText_def ClassifyImage_def
      DescribeImage_execute_def CombineTexts_execute_def TransformText_execute_def
      ClassifyImage_execute_def fst_return_tuple_Inr)

text \<open>The four methods on the small client with an API key: each returns the client's answer.\<close>

theorem helper_result_passed_through_witness:
  "fst (describe_image stub_ai 7 ''Merge:'' ''sys'' ''m'' ''key'' 0) = Inr ''a red dress''
   \<and> fst (DescribeImage_execute stub_ai () 7 ''m'' ''key'' ''sys'' ''Merge:'' 0)
       = Inr [''a red dress'']
   \<and> fst (run_prompt stub_ai (CombineTexts_full_prompt ''a'' ''X'' ''b'' ''Y'' ''Merge:'')
       ''sys'' ''m'' ''key'' 0) = Inr ''a red dress''
   \<and> fst (CombineTexts_execute stub_ai () ''a'' ''X'' ''b'' ''Y'' ''m'' ''key'' ''sys'' ''Merge:'' 0)
       = Inr [''a red dress'']
   \<and> fst (run_prompt stub_ai (TransformText_full_prompt ''a'' ''Merge:'') ''sys'' ''m'' ''key'' 0)
       = Inr ''a red dress''
   \<and> fst (TransformText_execute stub_ai () ''a'' ''m'' ''key'' ''sys'' ''Merge:'' 0)
       = Inr [''a red dress'']
   \<and> fst (describe_image stub_ai 7 ''Classify.'' ''sys'' ''m'' ''key'' 0) = Inr ''a red dress''
   \<and> fst (ClassifyImage_execute stub_ai () 7 ''Classify.'' ''m'' ''key'' ''sys'' 0)
       = Inr [''a red dress'']"
  using helper_result_passed_through [where ai = stub_ai and image_tensor = 7
      and prompt = "''Merge:''" and system_prompt = "''sys''" and model = "''m''"
      and api_key = "''key''" and s = 0 and v = "''a red dress''" and self = "()"
      and ta = "''a''" and x = "''X''" and tb = "''b''" and y = "''Y''" and t = "''a''"
      and classification_prompt = "''Classify.''"]
  by (simp add: stub_describe stub_run)

section \<open>Frame\<close>

text \<open>
  Claim C8. No \<open>execute\<close> changes or reads any state of its own. For each node and all
  inputs, the state after \<open>execute\<close> is the state that its one call of the client leaves,
  and the outcome does not depend on the node object \<open>self\<close>. Hence whatever part \<open>obs\<close>
  of the state the calls of the client leave unchanged is unchanged after \<open>execute\<close>: for
  a client that works on the world alone this holds of the module-level variables of
  \<open>nodes.py\<close> and of \<open>NODE_CLASS_MAPPINGS\<close> with the node classes and their declarations.
  Variables as for C2.
\<close>

theorem execute_frame:
  "snd (DescribeImage_execute ai self image_tensor model api_key system_prompt prompt s)
     = snd (describe_image ai image_tensor prompt system_prompt model api_key s)
   \<and> snd (CombineTexts_execute ai self ta x tb y model api_key system_prompt prompt s)
     = snd (run_prompt ai (CombineTexts_full_prompt ta x tb y prompt) system_prompt model
         api_key s)
   \<and> snd (TransformText_execute ai self t model api_key system_prompt prompt s)
     = snd (run_prompt ai (TransformText_full_prompt t prompt) system_prompt model api_key s)
   \<and> snd (ClassifyImage_execute ai self image_tensor classification_prompt model api_key
       system_prompt s)
     = snd (describe_image ai image_tensor classification_prompt system_prompt model api_key s)
   \<and> DescribeImage_execute ai self image_tensor model api_key system_prompt prompt s
     = DescribeImage_execute ai self' image_tensor model api_key system_prompt prompt s
   \<and> CombineTexts_execute ai self ta x tb y model api_key system_prompt prompt s
     = CombineTexts_execute ai self' ta x tb y model api_key system_prompt prompt s
   \<and> TransformText_execute ai self t model api_key system_prompt prompt s
     = TransformText_execute ai self' t model api_key system_prompt prompt s
   \<and> ClassifyImage_execute ai self image_tensor classification_prompt model api_key
       system_prompt s
     = ClassifyImage_execute ai self' image_tensor classification_prompt model api_key
       system_prompt s
   \<and> (keeps obs ai \<longrightarrow>
        obs (snd (DescribeImage_execute ai self image_tensor model api_key system_prompt prompt s))
          = obs s
      \<and> obs (snd (CombineTexts_execute ai self ta x tb y model api_key system_prompt prompt s))
          = obs s
      \<and> obs (snd (TransformText_execute ai self t model api_key system_prompt prompt s)) = obs s
      \<and> obs (snd (ClassifyImage_execute ai self image_tensor classification_prompt model
            api_key system_prompt s)) = obs s)"
  by (simp add: DescribeImage_execute_def CombineTexts_execute_def TransformText_execute_def
      ClassifyImage_execute_def snd_return_tuple keeps_describe_image keeps_run_prompt)

text \<open>
  The four methods on the small client, run on the world of the loaded program: the
  module-level variables and the registration dictionary are as they were loaded.
\<close>

theorem execute_frame_witness:
  "keeps (\<lambda>s. (nodes_py s, registry s)) (on_world stub_ai)
   \<and> nodes_py (snd (DescribeImage_execute (on_world stub_ai) () 7 ''m'' ''key'' ''sys''
         ''Merge:'' (loaded [''m''] 0))) = nodes_globals [''m'']
   \<and> registry (snd (DescribeImage_execute (on_world stub_ai) () 7 ''m'' ''key'' ''sys''
         ''Merge:'' (loaded [''m''] 0))) = NODE_CLASS_MAPPINGS (nodes_globals [''m''])
   \<and> nodes_py (snd (CombineTexts_execute (on_world stub_ai) () ''a'' ''X'' ''b'' ''Y'' ''m''
         ''key'' ''sys'' ''Merge:'' (loaded [''m''] 0))) = nodes_globals [''m'']
   \<and> registry (snd (CombineTexts_execute (on_world stub_ai) () ''a'' ''X'' ''b'' ''Y'' ''m''
         ''key'' ''sys'' ''Merge:'' (loaded [''m''] 0))) = NODE_CLASS_MAPPINGS (nodes_globals [''m''])
   \<and> nodes_py (snd (TransformText_execute (on_world stub_ai) () ''a'' ''m'' ''key'' ''sys''
         ''Merge:'' (loaded [''m''] 0))) = nodes_globals [''m'']
   \<and> registry (snd (TransformText_execute (on_world stub_ai) () ''a'' ''m'' ''key'' ''sys''
         ''Merge:'' (loaded [''m''] 0))) = NODE_CLASS_MAPPINGS (nodes_globals [''m''])
   \<and> nodes_py (snd (ClassifyImage_execute (on_world stub_ai) () 7 ''Classify.'' ''m'' ''key''
         ''sys'' (loaded [''m''] 0))) = nodes_globals [''m'']
   \<and> registry (snd (ClassifyImage_execute (on_world stub_ai) () 7 ''Classify.'' ''m'' ''key''
         ''sys'' (loaded [''m''] 0))) = NODE_CLASS_MAPPINGS (nodes_globals [''m''])"
  using execute_frame [where ai = "on_world stub_ai" and obs = "\<lambda>s. (nodes_py s, registry s)"
      and s = "loaded [''m''] 0" and self = "()" and self' = "()" and image_tensor = 7
      and model = "''m''" and api_key = "''key''" and system_prompt = "''sys''"
      and prompt = "''Merge:''" and ta = "''a''" and x = "''X''" and tb = "''b''" and y = "''Y''"
      and t = "''a''" and classification_prompt = "''Classify.''"]
    keeps_on_world [of stub_ai]
  by (elim conjE impE) (simp_all add: loaded_def)

section \<open>Input schemas\<close>

text \<open>
  The required flags of the declared inputs. In every node, \<open>required=False\<close> is passed
  for \<open>system_prompt\<close> and (where the node has it) \<open>prompt\<close>, and for no other input:
  the image and text inputs, \<open>model\<close> and \<open>api_key\<close> are declared without the keyword,
  and are required under the flag \<open>True\<close> that \<open>comfyui_types\<close> gives such an input.
\<close>

lemma input_required_flags:
  "required_keywords (DescribeImage g)
     = [(''image'', None), (''model'', None), (''api_key'', None),
        (''system_prompt'', Some False), (''prompt'', Some False)]
   \<and> required_keywords (CombineTexts g)
     = [(''text_1'', None), (''text_1_prefix'', None), (''text_2'', None),
        (''text_2_prefix'', None), (''model'', None), (''api_key'', None),
        (''system_prompt'', Some False), (''prompt'', Some False)]
   \<and> required_keywords (TransformText g)
     = [(''text'', None), (''model'', None), (''api_key'', None),
        (''system_prompt'', Some False), (''prompt'', Some False)]
   \<and> required_keywords (ClassifyImage g)
     = [(''image'', None), (''classification_prompt'', None), (''model'', None),
        (''api_key'', None), (''system_prompt'', Some False)]
   \<and> optional_inputs True (DescribeImage g) = [''system_prompt'', ''prompt'']
   \<and> required_inputs True (DescribeImage g) = [''image'', ''model'', ''api_key'']
   \<and> optional_inputs True (CombineTexts g) = [''system_prompt'', ''prompt'']
   \<and> required_inputs True (CombineTexts g)
     = [''text_1'', ''text_1_prefix'', ''text_2'', ''text_2_prefix'', ''model'', ''api_key'']
   \<and> optional_inputs True (TransformText g) = [''system_prompt'', ''prompt'']
   \<and> required_inputs True (TransformText g) = [''text'', ''model'', ''api_key'']
   \<and> optional_inputs True (ClassifyImage g) = [''system_prompt'']
   \<and> required_inputs True (ClassifyImage g)
     = [''image'', ''classification_prompt'', ''model'', ''api_key'']"
  by (simp add: required_keywords_def optional_inputs_def required_inputs_def
      is_required_def DescribeImage_def CombineTexts_def TransformText_def ClassifyImage_def)

text \<open>
  Claim C5. The declared inputs are to have the right required flags and the right
  defaults for each node. The flags are as above. The default of \<open>CombineTexts.prompt\<close>
  is not the one written for the node: the module defines \<open>COMBINE_TEXTS_PROMPT\<close>, an
  instruction to combine two texts, and the class declares \<open>default=DESCRIBE_IMAGE_PROMPT\<close>
  instead. A \<open>CombineTexts\<close> node run on its defaults (prefixes \<open>1\<close> and \<open>2\<close>, the
  default prompt) with the texts \<open>a\<close> and \<open>b\<close> therefore asks the client to describe an
  image: the prompt it sends is \<open>"Describe this image in detail.\n1 a\n2 b"\<close>.
\<close>

theorem CombineTexts_default_prompt_mismatch:
  "map_of (input_defaults (CombineTexts (nodes_globals ms))) ''prompt''
     = Some (Some ''Describe this image in detail.'')
   \<and> map_of (input_defaults (CombineTexts (nodes_globals ms))) ''prompt''
     \<noteq> Some (Some (COMBINE_TEXTS_PROMPT (nodes_globals ms)))
   \<and> map_of (input_defaults (CombineTexts (nodes_globals ms))) ''text_1_prefix''
     = Some (Some ''1'')
   \<and> map_of (input_defaults (CombineTexts (nodes_globals ms))) ''text_2_prefix''
     = Some (Some ''2'')
   \<and> calls (CombineTexts_execute (logged ai) self ''a'' ''1'' ''b'' ''2'' model api_key
       system_prompt ''Describe this image in detail.'' (cs, s))
     = cs @ [Run_prompt ''Describe this image in detail.\<newline>1 a\<newline>2 b''
               system_prompt model api_key]"
  by (simp add: input_defaults_def CombineTexts_def nodes_globals_def CombineTexts_execute_def
      CombineTexts_full_prompt_def fstring_def calls_return_tuple calls_logged_run_prompt)

text \<open>
  Claim C9. The default of the input \<open>prompt\<close> of \<open>CombineTexts\<close> is the string
  \<open>Describe this image in detail.\<close>, the value of \<open>DESCRIBE_IMAGE_PROMPT\<close>. The constant
  \<open>COMBINE_TEXTS_PROMPT\<close> is defined and never used: its value is the default of no input
  of any node, and neither the node classes nor \<open>NODE_CLASS_MAPPINGS\<close> depend on what the
  name is bound to. (The \<open>execute\<close> methods use no name of the module but the two
  functions of the client.)
\<close>

theorem CombineTexts_prompt_default:
  "map_of (input_defaults (CombineTexts (nodes_globals ms))) ''prompt''
     = Some (Some ''Describe this image in detail.'')
   \<and> DESCRIBE_IMAGE_PROMPT (nodes_globals ms) = ''Describe this image in detail.''
   \<and> COMBINE_TEXTS_PROMPT (nodes_globals ms)
     = ''Combine the following two texts into one coherent prompt without redundancies.''
   \<and> Some (COMBINE_TEXTS_PROMPT (nodes_globals ms))
     \<notin> snd ` set (input_defaults (DescribeImage (nodes_globals ms)))
   \<and> Some (COMBINE_TEXTS_PROMPT (nodes_globals ms))
     \<notin> snd ` set (input_defaults (CombineTexts (nodes_globals ms)))
   \<and> Some (COMBINE_TEXTS_PROMPT (nodes_globals ms))
     \<notin> snd ` set (input_defaults (TransformText (nodes_globals ms)))
   \<and> Some (COMBINE_TEXTS_PROMPT (nodes_globals ms))
     \<notin> snd ` set (input_defaults (ClassifyImage (nodes_globals ms)))
   \<and> DescribeImage (g\<lparr>COMBINE_TEXTS_PROMPT := c\<rparr>) = DescribeImage g
   \<and> CombineTexts (g\<lparr>COMBINE_TEXTS_PROMPT := c\<rparr>) = CombineTexts g
   \<and> TransformText (g\<lparr>COMBINE_TEXTS_PROMPT := c\<rparr>) = TransformText g
   \<and> ClassifyImage (g\<lparr>COMBINE_TEXTS_PROMPT := c\<rparr>) = ClassifyImage g
   \<and> NODE_CLASS_MAPPINGS (g\<lparr>COMBINE_TEXTS_PROMPT := c\<rparr>) = NODE_CLASS_MAPPINGS g"
  by (simp add: input_defaults_def NODE_CLASS_MAPPINGS_def DescribeImage_def CombineTexts_def
      TransformText_def ClassifyImage_def nodes_globals_def classification_prompt_default_def)

end
